theory Spec2Isabelle
  imports Main
begin

section \<open>JavaScript values read by the request layer\<close>

subsection \<open>Numbers produced by \<open>parseInt\<close>\<close>

text \<open>
  \<open>parseInt\<close> returns a Number: \<open>NaN\<close>, a signed zero, an integer-valued double or an
  infinity. \<open>Finite i\<close> is the double whose value is the integer \<open>i\<close>.
\<close>

datatype number = NaN | NegZero | Finite int | Infinity | NegInfinity

fun bitLength :: "nat \<Rightarrow> nat" where
  "bitLength n = (if n = 0 then 0 else Suc (bitLength (n div 2)))"

declare bitLength.simps [simp del]

text \<open>
  The Number value of a non-negative integer (ECMA-262, the conversion written F(x)):
  exact up to 53 significant bits, otherwise rounded to the nearest 53-bit mantissa with
  ties to the even one; \<open>None\<close> when the rounded magnitude reaches \<open>2 ^ 1024\<close>, where
  the Number is an infinity.
\<close>

definition roundToDouble :: "nat \<Rightarrow> nat option" where
  "roundToDouble n =
     (if bitLength n \<le> 53 then Some n
      else let e = bitLength n - 53;
               q = n div 2 ^ e;
               r = n mod 2 ^ e;
               h = 2 ^ (e - 1);
               q' = (if h < r \<or> (r = h \<and> odd q) then q + 1 else q);
               m = q' * 2 ^ e
           in if 2 ^ 1024 \<le> m then None else Some m)"

definition toNumber :: "bool \<Rightarrow> nat \<Rightarrow> number" where
  "toNumber negative mathInt =
     (if mathInt = 0 then (if negative then NegZero else Finite 0)
      else case roundToDouble mathInt of
             None \<Rightarrow> (if negative then NegInfinity else Infinity)
           | Some m \<Rightarrow> Finite (if negative then - int m else int m))"

text \<open>
  Strings are lists of 8-bit characters, which covers every header value an HTTP response
  carries. The white space \<open>parseInt\<close> skips is then TAB, LF, VT, FF, CR, SP and NBSP.
\<close>

definition isWhiteSpace :: "char \<Rightarrow> bool" where
  "isWhiteSpace c = (of_char c \<in> {9, 10, 11, 12, 13, 32, 160 :: nat})"

definition isDigit :: "char \<Rightarrow> bool" where
  "isDigit c = (48 \<le> (of_char c :: nat) \<and> (of_char c :: nat) \<le> 57)"

definition digitValue :: "char \<Rightarrow> nat" where
  "digitValue c = of_char c - 48"

definition digitsValue :: "string \<Rightarrow> nat" where
  "digitsValue Z = foldl (\<lambda>acc c. 10 * acc + digitValue c) 0 Z"

text \<open>
  \<open>parseInt(string, 10)\<close>: trim leading white space, read one optional sign, take the
  longest prefix of decimal digits; no digit gives \<open>NaN\<close>, otherwise the Number of the
  signed value. With radix 10 no \<open>0x\<close> prefix is stripped.
\<close>

definition parseInt :: "string \<Rightarrow> number" where
  "parseInt inputString =
     (let S = dropWhile isWhiteSpace inputString;
          negative = (S \<noteq> [] \<and> hd S = CHR ''-'');
          S' = (if S \<noteq> [] \<and> (hd S = CHR ''+'' \<or> hd S = CHR ''-'') then tl S else S);
          Z = takeWhile isDigit S'
      in if Z = [] then NaN else toNumber negative (digitsValue Z))"

subsection \<open>\<open>String.prototype.includes\<close>\<close>

fun startsWith :: "string \<Rightarrow> string \<Rightarrow> bool" where
  "startsWith s [] = True"
| "startsWith [] (c # cs) = False"
| "startsWith (x # xs) (c # cs) = (x = c \<and> startsWith xs cs)"

fun includes_string :: "string \<Rightarrow> string \<Rightarrow> bool" where
  "includes_string [] t = (t = [])"
| "includes_string (x # xs) t = (startsWith (x # xs) t \<or> includes_string xs t)"

section \<open>Data model\<close>

text \<open>
  The response attached to a failed request, as far as the classifier reads it:
  \<open>ex.response?.headers?.['x-ratelimit-reset']\<close> and
  \<open>ex.response?.errors?.[0]?.message\<close>. An absent or null property is \<open>None\<close>.
\<close>

record Response =
  headers :: "(string \<rightharpoonup> string) option"
  errors :: "string option list option"

record request_error =
  status :: int
  message :: string
  response :: "Response option"

text \<open>
  What \<open>handleRequestError\<close> receives. Its parameter is declared as the union
  \<open>RequestError | (Error & { name: 'AbortError' })\<close>, discriminated by \<open>name\<close>,
  and its body first tests \<open>ex instanceof CancellationError\<close>:
  \<^item> \<open>CancellationError original\<close> is an instance of \<open>CancellationError\<close>, holding the
    optional exception it wraps;
  \<^item> \<open>Error name message\<close> is an error that has a name and a message and neither
    \<open>status\<close> nor \<open>response\<close>; the abort of a request is \<open>Error ''AbortError'' m\<close>;
  \<^item> \<open>RequestError r\<close> is the request error of an HTTP failure, named \<open>HttpError\<close>,
    the member of the union that has \<open>status\<close>, \<open>message\<close> and \<open>response\<close>.
\<close>

datatype exn =
    CancellationError "exn option"
  | Error string string
  | RequestError request_error

text \<open>
  Modelled from the spec: the error classes, which are declared outside the sources. The
  spec lists their fields (a cause; a provider id, a reason that is \<open>Unauthorized\<close> or
  \<open>Forbidden\<close>, and a cause; a cause, a token and a reset time), and each class is its
  constructor applied to the arguments of the \<open>new\<close> expression, in their order. \<open>Exn\<close> is an exception thrown as it is:
  \<open>throw ex\<close>, and \<open>throw new CancellationError(ex)\<close>, which is
  \<open>Exn (CancellationError (Some ex))\<close>.
\<close>

datatype AuthenticationErrorReason = Unauthorized | Forbidden

datatype error =
    Exn exn
  | ProviderRequestNotFoundError exn
  | AuthenticationError string AuthenticationErrorReason exn
  | ProviderRequestRateLimitError exn "string option" "number option"
  | ProviderRequestClientError exn

record Retriever =
  id' :: string
  name :: string
  statusPageUrl :: "string option"
  token :: "string option"

record CancellationToken =
  isCancellationRequested :: bool

record FetchOptions =
  cancellation :: "CancellationToken option"
  timeout :: "int option"
  userAgent :: "string option"

text \<open>
  \<open>RequestInit\<close> as far as \<open>fetch\<close> touches it: an \<open>agent\<close> property (absent, or present
  with a possibly undefined value) and a plain object of headers.
\<close>

record RequestInit =
  init_agent :: "string option option"
  init_headers :: "(string \<rightharpoonup> string) option"

record request =
  req_url :: string
  req_agent :: "string option"
  req_headers :: "string \<rightharpoonup> string"

record env =
  isDebugging :: bool
  getProxyAgent :: "string option"

section \<open>Effects\<close>

text \<open>
  Every observable call the layer makes is appended to a trace, in program order: the
  listener registered on the cancellation token, the timer armed and cleared, the request
  given to the transport, the logger, the two health sinks (the subscription service of
  the container and the provider itself) and the three message surfaces.
  \<open>ClearTimeout\<close> is recorded when a timer exists (\<open>clearTimeout(undefined)\<close> does
  nothing).
\<close>

datatype event =
    OnCancellationRequested
  | SetTimeout int
  | Fetch request
  | ClearTimeout
  | LoggerError exn
  | SubscriptionTrackRequestException
  | ProviderTrackRequestException
  | ProviderResetRequestExceptionCount
  | ShowIntegrationRequestFailed500WarningMessage string
  | ShowIntegrationRequestTimedOutWarningMessage string
  | ShowErrorMessage string

record state =
  trace :: "event list"
  requestExceptionCount :: nat

definition emit :: "event \<Rightarrow> state \<Rightarrow> state" where
  "emit e s = s\<lparr>trace := trace s @ [e]\<rparr>"

text \<open>
  Modelled from the spec: the two methods of the \<open>Retriever\<close> interface, whose
  implementations are not part of the sources. The provider owns a count of tracked
  request exceptions; tracking adds one to it and resetting sets it to zero.
\<close>

definition trackRequestException :: "state \<Rightarrow> state" where
  "trackRequestException s =
     (emit ProviderTrackRequestException s)\<lparr>requestExceptionCount := Suc (requestExceptionCount s)\<rparr>"

definition resetRequestExceptionCount :: "state \<Rightarrow> state" where
  "resetRequestExceptionCount s =
     (emit ProviderResetRequestExceptionCount s)\<lparr>requestExceptionCount := 0\<rparr>"

section \<open>Classification: \<open>handleRequestError\<close>\<close>

datatype completion = Returns | Throws error

text \<open>Line 111: \<open>const reset = ex.response?.headers?.['x-ratelimit-reset']\<close>.\<close>

definition reset :: "request_error \<Rightarrow> string option" where
  "reset r =
     (case response r of None \<Rightarrow> None
      | Some resp \<Rightarrow> (case headers resp of None \<Rightarrow> None
                      | Some h \<Rightarrow> h ''x-ratelimit-reset''))"

text \<open>Lines 109 to 117: the value of the local \<open>resetAt\<close>.\<close>

definition resetAt :: "request_error \<Rightarrow> number option" where
  "resetAt r =
     (case reset r of
        None \<Rightarrow> None
      | Some v \<Rightarrow> (if parseInt v = NaN then None else Some (parseInt v)))"

definition failed500Message :: "Retriever \<Rightarrow> string" where
  "failed500Message provider =
     name provider @ '' failed to respond and might be experiencing issues.'' @
     (case statusPageUrl provider of
        None \<Rightarrow> []
      | Some u \<Rightarrow>
          (if u = [] then []
           else ''Please visit the ['' @ name provider @ '' status page]('' @ u
                @ '') for more information.''))"

text \<open>Lines 158 to 162: the message shown after the switch when the logger is debugging.\<close>

definition showDebugMessage ::
  "env \<Rightarrow> Retriever \<Rightarrow> Response option \<Rightarrow> string \<Rightarrow> state \<Rightarrow> state" where
  "showDebugMessage e provider resp msg s =
     (if isDebugging e then
        emit (ShowErrorMessage
               (name provider @ '' request failed: '' @
                (case (case resp of None \<Rightarrow> None
                       | Some rp \<Rightarrow> (case errors rp of None \<Rightarrow> None
                                     | Some [] \<Rightarrow> None
                                     | Some (m # _) \<Rightarrow> m)) of
                   None \<Rightarrow> msg
                 | Some m \<Rightarrow> m))) s
      else s)"

text \<open>
  The switch on \<open>ex.status\<close>, in the order of its cases. An error without
  \<open>status\<close> matches no case and fails the test \<open>ex.status >= 400\<close> of the default
  branch, so that it only reaches the debug message.
\<close>

fun handleRequestError :: "env \<Rightarrow> Retriever \<Rightarrow> exn \<Rightarrow> state \<Rightarrow> completion \<times> state" where
  "handleRequestError e provider (CancellationError original) s =
     (Throws (Exn (CancellationError original)), s)"
| "handleRequestError e provider (Error n m) s =
     (if n = ''AbortError'' then (Throws (Exn (CancellationError (Some (Error n m)))), s)
      else (Returns, showDebugMessage e provider None m s))"
| "handleRequestError e provider (RequestError r) s =
     (let ex = RequestError r in
      if status r = 404 \<or> status r = 410 \<or> status r = 422 then
        (Throws (ProviderRequestNotFoundError ex), s)
      else if status r = 401 then
        (Throws (AuthenticationError (id' provider) Unauthorized ex), s)
      else if status r = 403 then
        (if includes_string (message r) ''rate limit'' then
           (Throws (ProviderRequestRateLimitError ex (token provider) (resetAt r)), s)
         else (Throws (AuthenticationError ''gitkraken'' Forbidden ex), s))
      else if status r = 500 then
        (let s1 = emit (LoggerError ex) s in
         if response r \<noteq> None then
           (Returns,
            emit (ShowIntegrationRequestFailed500WarningMessage (failed500Message provider))
              (emit SubscriptionTrackRequestException s1))
         else (Returns, s1))
      else if status r = 502 then
        (let s1 = emit (LoggerError ex) s;
             s2 = (if includes_string (message r) ''timeout'' then
                     emit (ShowIntegrationRequestTimedOutWarningMessage (name provider))
                       (trackRequestException s1)
                   else s1)
         in (Returns, showDebugMessage e provider (response r) (message r) s2))
      else if status r = 503 then
        (Returns,
         emit (ShowIntegrationRequestFailed500WarningMessage (failed500Message provider))
           (emit SubscriptionTrackRequestException (emit (LoggerError ex) s)))
      else if 400 \<le> status r \<and> status r < 500 then
        (Throws (ProviderRequestClientError ex), s)
      else (Returns, showDebugMessage e provider (response r) (message r) s))"

section \<open>Execution: \<open>fetch\<close>\<close>

text \<open>Line 57: \<open>options?.cancellation?.isCancellationRequested\<close>.\<close>

definition cancellationRequested :: "FetchOptions option \<Rightarrow> bool" where
  "cancellationRequested options =
     (case options of None \<Rightarrow> False
      | Some opts \<Rightarrow> (case cancellation opts of None \<Rightarrow> False
                      | Some tok \<Rightarrow> isCancellationRequested tok))"

text \<open>Lines 61 to 67: the value of the local \<open>timeout\<close>.\<close>

definition effectiveTimeout :: "FetchOptions option \<Rightarrow> int option" where
  "effectiveTimeout options =
     (case options of None \<Rightarrow> Some (60 * 1000)
      | Some opts \<Rightarrow>
          (case cancellation opts of
             Some tok \<Rightarrow> timeout opts
           | None \<Rightarrow> (case timeout opts of None \<Rightarrow> Some (60 * 1000) | Some t \<Rightarrow> Some t)))"

definition hasCancellation :: "FetchOptions option \<Rightarrow> bool" where
  "hasCancellation options =
     (case options of None \<Rightarrow> False | Some opts \<Rightarrow> cancellation opts \<noteq> None)"

text \<open>Lines 72 to 80: the request handed to the transport.\<close>

definition buildRequest :: "env \<Rightarrow> string \<Rightarrow> RequestInit option \<Rightarrow> FetchOptions option \<Rightarrow> request" where
  "buildRequest e u init options =
     \<lparr>req_url = u,
      req_agent = (case init of None \<Rightarrow> getProxyAgent e
                   | Some i \<Rightarrow> (case init_agent i of None \<Rightarrow> getProxyAgent e | Some a \<Rightarrow> a)),
      req_headers =
        [''User-Agent'' \<mapsto>
           (case options of None \<Rightarrow> []
            | Some opts \<Rightarrow> (case userAgent opts of None \<Rightarrow> [] | Some ua \<Rightarrow> ua))]
        ++ (case init of None \<Rightarrow> Map.empty
            | Some i \<Rightarrow> (case init_headers i of None \<Rightarrow> Map.empty | Some h \<Rightarrow> h))\<rparr>"

text \<open>
  The transport is the environment: it settles the request either with a response
  (\<open>Inr\<close>) or with an exception (\<open>Inl\<close>); an abort raised by the timer or by the
  cancellation token is one of the ways it rejects. The response type is left open,
  as \<open>fetch\<close> never looks into it.
\<close>

definition fetch ::
  "env \<Rightarrow> Retriever \<Rightarrow> string \<Rightarrow> RequestInit option \<Rightarrow> FetchOptions option
     \<Rightarrow> (request \<Rightarrow> exn + 'r) \<Rightarrow> state \<Rightarrow> (error + 'r) \<times> state" where
  "fetch e provider u init options transport s =
     (if cancellationRequested options then (Inl (Exn (CancellationError None)), s)
      else
        let s1 = (if hasCancellation options then emit OnCancellationRequested s else s);
            timer = effectiveTimeout options;
            s2 = (case timer of None \<Rightarrow> s1 | Some t \<Rightarrow> emit (SetTimeout t) s1);
            req = buildRequest e u init options;
            s3 = emit (Fetch req) s2;
            s4 = (case timer of None \<Rightarrow> s3 | Some t \<Rightarrow> emit ClearTimeout s3)
        in case transport req of
             Inr result \<Rightarrow> (Inr result, resetRequestExceptionCount s4)
           | Inl ex \<Rightarrow>
               (case handleRequestError e provider ex s4 of
                  (Throws err, s5) \<Rightarrow> (Inl err, s5)
                | (Returns, s5) \<Rightarrow> (Inl (Exn ex), s5)))"

text \<open>The events a call added to the trace.\<close>

definition eventsSince :: "state \<Rightarrow> state \<Rightarrow> event list" where
  "eventsSince s s' = drop (length (trace s)) (trace s')"

text \<open>The delays of the timers armed by a list of events.\<close>

fun timersArmed :: "event list \<Rightarrow> int list" where
  "timersArmed [] = []"
| "timersArmed (SetTimeout t # evs) = t # timersArmed evs"
| "timersArmed (_ # evs) = timersArmed evs"

section \<open>Sample inputs\<close>

definition github :: Retriever where
  "github = \<lparr>id' = ''github'', name = ''GitHub'',
             statusPageUrl = Some ''https://www.githubstatus.com'', token = Some ''t0k3n''\<rparr>"

definition quiet :: env where
  "quiet = \<lparr>isDebugging = False, getProxyAgent = None\<rparr>"

definition troubled :: state where
  "troubled = \<lparr>trace = [], requestExceptionCount = 3\<rparr>"

definition respond :: "request \<Rightarrow> exn + string" where
  "respond req = Inr ''body''"

definition cancelled10 :: "FetchOptions option" where
  "cancelled10 = Some \<lparr>cancellation = Some \<lparr>isCancellationRequested = True\<rparr>,
                        timeout = Some 10, userAgent = None\<rparr>"

definition failure :: "int \<Rightarrow> string \<Rightarrow> (string \<rightharpoonup> string) \<Rightarrow> request_error" where
  "failure code msg hdrs =
     \<lparr>status = code, message = msg, response = Some \<lparr>headers = Some hdrs, errors = None\<rparr>\<rparr>"

section \<open>Facts about the JavaScript primitives\<close>

lemma bitLength_le: "n < 2 ^ k \<Longrightarrow> bitLength n \<le> k"
proof (induction k arbitrary: n)
  case 0
  then show ?case by (simp add: bitLength.simps)
next
  case (Suc k)
  show ?case
  proof (cases "n = 0")
    case True
    then show ?thesis by (simp add: bitLength.simps)
  next
    case False
    from Suc.prems have "n div 2 < 2 ^ k" by simp
    then have "bitLength (n div 2) \<le> k" by (rule Suc.IH)
    with False show ?thesis by (subst bitLength.simps) simp
  qed
qed

text \<open>Integers below \<open>2 ^ 53\<close> are Numbers as they are.\<close>

lemma roundToDouble_exact: "n < 2 ^ 53 \<Longrightarrow> roundToDouble n = Some n"
  by (simp add: roundToDouble_def bitLength_le)

lemma toNumber_exact: "n < 2 ^ 53 \<Longrightarrow> toNumber False n = Finite (int n)"
  by (simp add: toNumber_def roundToDouble_exact)

lemma toNumber_exact_negative:
  "0 < n \<Longrightarrow> n < 2 ^ 53 \<Longrightarrow> toNumber True n = Finite (- int n)"
  by (simp add: toNumber_def roundToDouble_exact)

lemma toNumber_not_NaN: "toNumber negative n \<noteq> NaN"
  by (simp add: toNumber_def split: option.split)

text \<open>\<open>includes_string s t\<close> holds exactly when \<open>t\<close> occurs in \<open>s\<close>.\<close>

lemma startsWith_iff: "startsWith s t \<longleftrightarrow> (\<exists>v. s = t @ v)"
  by (induction s t rule: startsWith.induct) auto

lemma includes_string_iff: "includes_string s t \<longleftrightarrow> (\<exists>u v. s = u @ t @ v)"
proof (induction s)
  case Nil
  then show ?case by auto
next
  case (Cons x xs)
  show ?case
  proof
    assume "includes_string (x # xs) t"
    then consider "startsWith (x # xs) t" | "includes_string xs t" by auto
    then show "\<exists>u v. x # xs = u @ t @ v"
    proof cases
      case 1
      then obtain v where "x # xs = t @ v" by (auto simp: startsWith_iff)
      then have "x # xs = [] @ t @ v" by simp
      then show ?thesis by blast
    next
      case 2
      with Cons.IH obtain u v where "xs = u @ t @ v" by blast
      then have "x # xs = (x # u) @ t @ v" by simp
      then show ?thesis by blast
    qed
  next
    assume "\<exists>u v. x # xs = u @ t @ v"
    then obtain u v where uv: "x # xs = u @ t @ v" by blast
    show "includes_string (x # xs) t"
    proof (cases u)
      case Nil
      with uv have "startsWith (x # xs) t" by (auto simp: startsWith_iff)
      then show ?thesis by simp
    next
      case (Cons y ys)
      with uv have "xs = ys @ t @ v" by simp
      with Cons.IH have "includes_string xs t" by blast
      then show ?thesis by simp
    qed
  qed
qed

text \<open>
  \<open>parseInt\<close> reads the digits that follow the white space and the sign, and stops at the
  first character that is no digit.
\<close>

lemma digit_not_space: "isDigit c \<Longrightarrow> \<not> isWhiteSpace c"
  by (auto simp: isDigit_def isWhiteSpace_def)

lemma digit_not_sign: "isDigit c \<Longrightarrow> c \<noteq> CHR ''+'' \<and> c \<noteq> CHR ''-''"
  by (auto simp: isDigit_def)

lemma sign_not_space: "\<not> isWhiteSpace CHR ''+''" "\<not> isWhiteSpace CHR ''-''"
  by (simp_all add: isWhiteSpace_def)

lemma takeWhile_digits:
  "\<forall>c\<in>set Z. isDigit c \<Longrightarrow> rest = [] \<or> \<not> isDigit (hd rest)
     \<Longrightarrow> takeWhile isDigit (Z @ rest) = Z"
  by (cases rest) (simp_all add: takeWhile_append2 takeWhile_tail)

lemma parseInt_prefix:
  assumes ws: "\<forall>c\<in>set ws. isWhiteSpace c"
    and sg: "sg = [] \<or> sg = ''+'' \<or> sg = ''-''"
    and Z: "Z \<noteq> []" "\<forall>c\<in>set Z. isDigit c"
    and rest: "rest = [] \<or> \<not> isDigit (hd rest)"
  shows "parseInt (ws @ sg @ Z @ rest) = toNumber (sg = ''-'') (digitsValue Z)"
proof -
  obtain z zs where Zc: "Z = z # zs" using Z(1) by (cases Z) auto
  have zd: "isDigit z" using Z(2) Zc by simp
  have hdns: "\<not> isWhiteSpace (hd (sg @ Z @ rest))"
    using sg zd Zc by (auto simp: sign_not_space digit_not_space)
  have ne: "sg @ Z @ rest \<noteq> []" using Zc by simp
  have dw: "dropWhile isWhiteSpace (ws @ sg @ Z @ rest) = sg @ Z @ rest"
    using ws hdns ne by (cases "sg @ Z @ rest") (simp_all add: dropWhile_append)
  have tw: "takeWhile isDigit (Z @ rest) = Z" using Z(2) rest by (rule takeWhile_digits)
  from sg show ?thesis
  proof (elim disjE)
    assume "sg = []"
    then show ?thesis using dw tw Zc zd digit_not_sign[OF zd]
      by (simp add: parseInt_def Let_def)
  next
    assume "sg = ''+''"
    then show ?thesis using dw tw Z(1)
      by (simp add: parseInt_def Let_def)
  next
    assume "sg = ''-''"
    then show ?thesis using dw tw Z(1)
      by (simp add: parseInt_def Let_def)
  qed
qed

section \<open>Facts about the trace\<close>

lemma timersArmed_append: "timersArmed (xs @ ys) = timersArmed xs @ timersArmed ys"
  by (induction xs rule: timersArmed.induct) simp_all

lemma eventsSince_append: "trace s' = trace s @ evs \<Longrightarrow> eventsSince s s' = evs"
  by (simp add: eventsSince_def)

text \<open>Classification only appends to the trace, and arms no timer.\<close>

lemma handleRequestError_trace:
  "\<exists>evs. trace (snd (handleRequestError e provider ex s)) = trace s @ evs
         \<and> timersArmed evs = []"
proof (cases ex)
  case (CancellationError original)
  then show ?thesis by simp
next
  case (Error n m)
  then show ?thesis by (simp add: emit_def showDebugMessage_def)
next
  case (RequestError r)
  then show ?thesis
    by (simp add: Let_def emit_def trackRequestException_def showDebugMessage_def)
qed

section \<open>Cancellation is never reclassified\<close>

text \<open>
  C6. An exception that already is a \<open>CancellationError\<close> leaves classification as
  the very same exception, with nothing logged, tracked or shown and whatever else it
  carries; an error named \<open>AbortError\<close> leaves it as a new \<open>CancellationError\<close> whose
  cause is the original exception, again without any effect. When the transport rejects
  with one of the two, this is also what \<open>fetch\<close> throws to its caller.
\<close>

theorem cancellation_propagates:
  "handleRequestError e provider (CancellationError original) s
     = (Throws (Exn (CancellationError original)), s)
   \<and> handleRequestError e provider (Error ''AbortError'' m) s
     = (Throws (Exn (CancellationError (Some (Error ''AbortError'' m)))), s)
   \<and> (\<not> cancellationRequested options
        \<longrightarrow> transport (buildRequest e u init options) = Inl (CancellationError original)
        \<longrightarrow> fst (fetch e provider u init options transport s)
              = Inl (Exn (CancellationError original)))
   \<and> (\<not> cancellationRequested options
        \<longrightarrow> transport (buildRequest e u init options) = Inl (Error ''AbortError'' m)
        \<longrightarrow> fst (fetch e provider u init options transport s)
              = Inl (Exn (CancellationError (Some (Error ''AbortError'' m)))))"
  by (simp add: fetch_def Let_def)

theorem cancellation_propagates_witness:
  "fst (fetch quiet github ''https://api.github.com/user'' None None
          (\<lambda>req. Inl (CancellationError None) :: exn + string) troubled)
     = Inl (Exn (CancellationError None))
   \<and> fst (fetch quiet github ''https://api.github.com/user'' None None
          (\<lambda>req. Inl (Error ''AbortError'' ''The user aborted a request.'') :: exn + string)
          troubled)
     = Inl (Exn (CancellationError (Some (Error ''AbortError'' ''The user aborted a request.''))))"
proof -
  have n: "\<not> cancellationRequested None"
    by (simp add: cancellationRequested_def)
  from n cancellation_propagates [where options = None and e = quiet and provider = github
      and u = "''https://api.github.com/user''" and init = None and s = troubled
      and original = None and m = "''The user aborted a request.''"
      and transport = "\<lambda>req. Inl (CancellationError None) :: exn + string"]
  have a: "fst (fetch quiet github ''https://api.github.com/user'' None None
          (\<lambda>req. Inl (CancellationError None) :: exn + string) troubled)
     = Inl (Exn (CancellationError None))"
    by blast
  from n cancellation_propagates [where options = None and e = quiet and provider = github
      and u = "''https://api.github.com/user''" and init = None and s = troubled
      and original = None and m = "''The user aborted a request.''"
      and transport = "\<lambda>req. Inl (Error ''AbortError'' ''The user aborted a request.'') :: exn + string"]
  have b: "fst (fetch quiet github ''https://api.github.com/user'' None None
          (\<lambda>req. Inl (Error ''AbortError'' ''The user aborted a request.'') :: exn + string)
          troubled)
     = Inl (Exn (CancellationError (Some (Error ''AbortError'' ''The user aborted a request.''))))"
    by blast
  from a b show ?thesis by blast
qed

section \<open>Terminal classifications\<close>

text \<open>
  C9. A request error whose status is 404, 410 or 422 leaves classification as a
  \<open>ProviderRequestNotFoundError\<close> that wraps the original exception; nothing is logged,
  tracked or shown on the way.
\<close>

theorem not_found_statuses:
  assumes "status r = 404 \<or> status r = 410 \<or> status r = 422"
  shows "handleRequestError e provider (RequestError r) s
           = (Throws (ProviderRequestNotFoundError (RequestError r)), s)"
  using assms by auto

theorem not_found_statuses_witness:
  "(status (failure 410 ''Gone'' Map.empty) = 404
      \<or> status (failure 410 ''Gone'' Map.empty) = 410
      \<or> status (failure 410 ''Gone'' Map.empty) = 422)
   \<and> handleRequestError quiet github (RequestError (failure 410 ''Gone'' Map.empty)) troubled
       = (Throws (ProviderRequestNotFoundError (RequestError (failure 410 ''Gone'' Map.empty))),
          troubled)"
proof -
  have h: "status (failure 410 ''Gone'' Map.empty) = 404
      \<or> status (failure 410 ''Gone'' Map.empty) = 410
      \<or> status (failure 410 ''Gone'' Map.empty) = 422"
    by (simp add: failure_def)
  from h not_found_statuses [OF h] show ?thesis by blast
qed

text \<open>
  C8. A request error with status 401 leaves classification as an
  \<open>AuthenticationError\<close> with reason \<open>Unauthorized\<close> that carries the id of the provider
  the call was made for and the original exception as its cause.
\<close>

theorem unauthorized_carries_provider_id:
  assumes "status r = 401"
  shows "handleRequestError e provider (RequestError r) s
           = (Throws (AuthenticationError (id' provider) Unauthorized (RequestError r)), s)"
  using assms by simp

theorem unauthorized_carries_provider_id_witness:
  "status (failure 401 ''Bad credentials'' Map.empty) = 401
   \<and> handleRequestError quiet github
        (RequestError (failure 401 ''Bad credentials'' Map.empty)) troubled
       = (Throws (AuthenticationError ''github'' Unauthorized
                    (RequestError (failure 401 ''Bad credentials'' Map.empty))),
          troubled)"
proof -
  have h: "status (failure 401 ''Bad credentials'' Map.empty) = 401"
    by (simp add: failure_def)
  from h unauthorized_carries_provider_id [OF h, of quiet github troubled]
  show ?thesis by (simp add: github_def)
qed

text \<open>
  C5. A request error with status 403 whose message does not contain \<open>rate limit\<close>
  leaves classification as an \<open>AuthenticationError\<close> with reason \<open>Forbidden\<close> whose
  provider id is the literal \<open>gitkraken\<close>, whatever the id of the calling provider is.
\<close>

theorem forbidden_carries_fixed_identity:
  assumes "status r = 403" and "\<not> includes_string (message r) ''rate limit''"
  shows "handleRequestError e provider (RequestError r) s
           = (Throws (AuthenticationError ''gitkraken'' Forbidden (RequestError r)), s)"
  using assms by simp

theorem forbidden_carries_fixed_identity_witness:
  "status (failure 403 ''Resource not accessible'' Map.empty) = 403
   \<and> \<not> includes_string (message (failure 403 ''Resource not accessible'' Map.empty)) ''rate limit''
   \<and> id' github \<noteq> ''gitkraken''
   \<and> handleRequestError quiet github
        (RequestError (failure 403 ''Resource not accessible'' Map.empty)) troubled
       = (Throws (AuthenticationError ''gitkraken'' Forbidden
                    (RequestError (failure 403 ''Resource not accessible'' Map.empty))),
          troubled)"
proof -
  have h1: "status (failure 403 ''Resource not accessible'' Map.empty) = 403"
    by (simp add: failure_def)
  have h2: "\<not> includes_string (message (failure 403 ''Resource not accessible'' Map.empty))
                 ''rate limit''"
    by (simp add: failure_def)
  have h3: "id' github \<noteq> ''gitkraken''"
    by (simp add: github_def)
  from h1 h2 h3 forbidden_carries_fixed_identity [OF h1 h2, of quiet github troubled]
  show ?thesis by simp
qed

section \<open>Rate limits\<close>

lemma parseInt_1700000000: "parseInt ''1700000000'' = Finite 1700000000"
proof -
  have "parseInt ([] @ [] @ ''1700000000'' @ []) = toNumber ([] = ''-'') (digitsValue ''1700000000'')"
    by (rule parseInt_prefix) (simp_all add: isDigit_def)
  moreover have "digitsValue ''1700000000'' = 1700000000"
    by (simp add: digitsValue_def digitValue_def)
  ultimately show ?thesis by (simp add: toNumber_exact)
qed

lemma parseInt_not_a_number: "parseInt ''not-a-number'' = NaN"
  by (simp add: parseInt_def isWhiteSpace_def isDigit_def)

lemma handleRequestError_rate_limit:
  "status r = 403 \<Longrightarrow> includes_string (message r) ''rate limit''
     \<Longrightarrow> handleRequestError e provider (RequestError r) s
         = (Throws (ProviderRequestRateLimitError (RequestError r) (token provider) (resetAt r)), s)"
  by simp

text \<open>
  C2. A request error with status 403 whose message contains \<open>rate limit\<close> leaves
  classification as a \<open>ProviderRequestRateLimitError\<close> whose \<open>resetAt\<close> is the Number
  \<open>parseInt\<close> reads from the \<open>x-ratelimit-reset\<close> header of the response: a header made
  of decimal digits gives the integer they denote when that is below \<open>2 ^ 53\<close>
  (\<open>1700000000\<close> for \<open>"1700000000"\<close>) and the Number nearest to it otherwise, and a header \<open>parseInt\<close> reads as \<open>NaN\<close> (such as
  \<open>"not-a-number"\<close>), like a missing header, gives no \<open>resetAt\<close>. The error thrown is
  the rate-limit error in every case: the parse throws nothing.
\<close>

theorem rate_limit_reset_parsed:
  assumes "status r = 403" and "includes_string (message r) ''rate limit''"
  shows "handleRequestError e provider (RequestError r) s
           = (Throws (ProviderRequestRateLimitError (RequestError r) (token provider) (resetAt r)), s)
         \<and> (\<forall>v. reset r = Some v \<longrightarrow> parseInt v \<noteq> NaN \<longrightarrow> resetAt r = Some (parseInt v))
         \<and> (\<forall>v. reset r = Some v \<longrightarrow> v \<noteq> [] \<longrightarrow> (\<forall>c\<in>set v. isDigit c) \<longrightarrow> digitsValue v < 2 ^ 53
                \<longrightarrow> resetAt r = Some (Finite (int (digitsValue v))))
         \<and> (reset r = Some ''1700000000'' \<longrightarrow> resetAt r = Some (Finite 1700000000))
         \<and> (\<forall>v. reset r = Some v \<longrightarrow> parseInt v = NaN \<longrightarrow> resetAt r = None)
         \<and> (reset r = Some ''not-a-number'' \<longrightarrow> resetAt r = None)
         \<and> (reset r = None \<longrightarrow> resetAt r = None)"
proof -
  have digits: "resetAt r = Some (Finite (int (digitsValue v)))"
    if "reset r = Some v" "v \<noteq> []" "\<forall>c\<in>set v. isDigit c" "digitsValue v < 2 ^ 53" for v
  proof -
    have "parseInt ([] @ [] @ v @ []) = toNumber ([] = ''-'') (digitsValue v)"
      using that(2,3) by (intro parseInt_prefix) simp_all
    then have "parseInt v = Finite (int (digitsValue v))"
      using that(4) by (simp add: toNumber_exact)
    with that(1) show ?thesis by (simp add: resetAt_def)
  qed
  show ?thesis
    using assms digits
    by (simp add: handleRequestError_rate_limit resetAt_def parseInt_1700000000
        parseInt_not_a_number)
qed

theorem rate_limit_reset_parsed_witness:
  "status (failure 403 ''API rate limit exceeded'' [''x-ratelimit-reset'' \<mapsto> ''1700000000'']) = 403
   \<and> includes_string
        (message (failure 403 ''API rate limit exceeded'' [''x-ratelimit-reset'' \<mapsto> ''1700000000'']))
        ''rate limit''
   \<and> handleRequestError quiet github
        (RequestError (failure 403 ''API rate limit exceeded'' [''x-ratelimit-reset'' \<mapsto> ''1700000000'']))
        troubled
       = (Throws (ProviderRequestRateLimitError
                    (RequestError (failure 403 ''API rate limit exceeded''
                                     [''x-ratelimit-reset'' \<mapsto> ''1700000000'']))
                    (Some ''t0k3n'') (Some (Finite 1700000000))),
          troubled)
   \<and> status (failure 403 ''API rate limit exceeded'' [''x-ratelimit-reset'' \<mapsto> ''not-a-number'']) = 403
   \<and> includes_string
        (message (failure 403 ''API rate limit exceeded'' [''x-ratelimit-reset'' \<mapsto> ''not-a-number'']))
        ''rate limit''
   \<and> handleRequestError quiet github
        (RequestError (failure 403 ''API rate limit exceeded'' [''x-ratelimit-reset'' \<mapsto> ''not-a-number'']))
        troubled
       = (Throws (ProviderRequestRateLimitError
                    (RequestError (failure 403 ''API rate limit exceeded''
                                     [''x-ratelimit-reset'' \<mapsto> ''not-a-number'']))
                    (Some ''t0k3n'') None),
          troubled)"
proof -
  let ?good = "failure 403 ''API rate limit exceeded'' [''x-ratelimit-reset'' \<mapsto> ''1700000000'']"
  let ?bad = "failure 403 ''API rate limit exceeded'' [''x-ratelimit-reset'' \<mapsto> ''not-a-number'']"
  have g1: "status ?good = 403" and b1: "status ?bad = 403"
    by (simp_all add: failure_def)
  have g2: "includes_string (message ?good) ''rate limit''"
    and b2: "includes_string (message ?bad) ''rate limit''"
    by (simp_all add: failure_def)
  have g3: "reset ?good = Some ''1700000000''" and b3: "reset ?bad = Some ''not-a-number''"
    by (simp_all add: failure_def reset_def)
  have tok: "token github = Some ''t0k3n''"
    by (simp add: github_def)
  from rate_limit_reset_parsed [OF g1 g2, of quiet github troubled] g3 tok
  have good: "handleRequestError quiet github (RequestError ?good) troubled
       = (Throws (ProviderRequestRateLimitError (RequestError ?good)
                    (Some ''t0k3n'') (Some (Finite 1700000000))), troubled)"
    by simp
  from rate_limit_reset_parsed [OF b1 b2, of quiet github troubled] b3 tok
  have bad: "handleRequestError quiet github (RequestError ?bad) troubled
       = (Throws (ProviderRequestRateLimitError (RequestError ?bad)
                    (Some ''t0k3n'') None), troubled)"
    by simp
  from g1 g2 good b1 b2 bad show ?thesis by blast
qed

text \<open>
  C10. When the message contains \<open>rate limit\<close> and the \<open>x-ratelimit-reset\<close> header
  begins with decimal digits (after optional white space and one optional sign) and goes on
  with something that is no digit, as in \<open>"1700000000.5"\<close> or \<open>"123abc"\<close>, the
  \<open>resetAt\<close> of the error thrown is present, as \<open>parseInt\<close> does not read the header as
  \<open>NaN\<close>: it is the Number of the integer those leading digits denote, which below
  \<open>2 ^ 53\<close> is that integer itself.
\<close>

theorem reset_leading_integer:
  assumes "status r = 403" and "includes_string (message r) ''rate limit''"
    and "reset r = Some (ws @ sg @ Z @ rest)"
    and "\<forall>c\<in>set ws. isWhiteSpace c"
    and "sg = [] \<or> sg = ''+'' \<or> sg = ''-''"
    and "Z \<noteq> []" and "\<forall>c\<in>set Z. isDigit c"
    and "rest \<noteq> []" and "\<not> isDigit (hd rest)"
  shows "handleRequestError e provider (RequestError r) s
           = (Throws (ProviderRequestRateLimitError (RequestError r) (token provider)
                        (Some (toNumber (sg = ''-'') (digitsValue Z)))), s)
         \<and> parseInt (ws @ sg @ Z @ rest) \<noteq> NaN
         \<and> (sg \<noteq> ''-'' \<longrightarrow> digitsValue Z < 2 ^ 53
                \<longrightarrow> resetAt r = Some (Finite (int (digitsValue Z))))
         \<and> (sg = ''-'' \<longrightarrow> 0 < digitsValue Z \<longrightarrow> digitsValue Z < 2 ^ 53
                \<longrightarrow> resetAt r = Some (Finite (- int (digitsValue Z))))"
proof -
  have p: "parseInt (ws @ sg @ Z @ rest) = toNumber (sg = ''-'') (digitsValue Z)"
    using assms(4-7,9) by (intro parseInt_prefix) simp_all
  then have ra: "resetAt r = Some (toNumber (sg = ''-'') (digitsValue Z))"
    using assms(3) by (simp add: resetAt_def toNumber_not_NaN)
  show ?thesis
    using assms(1,2) ra p
    by (simp add: handleRequestError_rate_limit toNumber_exact toNumber_exact_negative
        toNumber_not_NaN)
qed

theorem reset_leading_integer_witness:
  "handleRequestError quiet github
     (RequestError (failure 403 ''API rate limit exceeded'' [''x-ratelimit-reset'' \<mapsto> ''1700000000.5'']))
     troubled
    = (Throws (ProviderRequestRateLimitError
                 (RequestError (failure 403 ''API rate limit exceeded''
                                  [''x-ratelimit-reset'' \<mapsto> ''1700000000.5'']))
                 (Some ''t0k3n'') (Some (Finite 1700000000))),
       troubled)
   \<and> handleRequestError quiet github
     (RequestError (failure 403 ''API rate limit exceeded'' [''x-ratelimit-reset'' \<mapsto> ''123abc'']))
     troubled
    = (Throws (ProviderRequestRateLimitError
                 (RequestError (failure 403 ''API rate limit exceeded''
                                  [''x-ratelimit-reset'' \<mapsto> ''123abc'']))
                 (Some ''t0k3n'') (Some (Finite 123))),
       troubled)"
proof -
  let ?frac = "failure 403 ''API rate limit exceeded'' [''x-ratelimit-reset'' \<mapsto> ''1700000000.5'']"
  let ?abc = "failure 403 ''API rate limit exceeded'' [''x-ratelimit-reset'' \<mapsto> ''123abc'']"
  have st: "status ?frac = 403" "status ?abc = 403"
    by (simp_all add: failure_def)
  have msg: "includes_string (message ?frac) ''rate limit''"
    "includes_string (message ?abc) ''rate limit''"
    by (simp_all add: failure_def)
  have hf: "reset ?frac = Some ([] @ [] @ ''1700000000'' @ ''.5'')"
    and ha: "reset ?abc = Some ([] @ [] @ ''123'' @ ''abc'')"
    by (simp_all add: failure_def reset_def)
  have tok: "token github = Some ''t0k3n''"
    by (simp add: github_def)
  have vf: "digitsValue ''1700000000'' = 1700000000" and va: "digitsValue ''123'' = 123"
    by (simp_all add: digitsValue_def digitValue_def)
  have "handleRequestError quiet github (RequestError ?frac) troubled
         = (Throws (ProviderRequestRateLimitError (RequestError ?frac) (token github)
                      (Some (toNumber ([] = ''-'') (digitsValue ''1700000000'')))), troubled)"
    using reset_leading_integer [OF st(1) msg(1) hf, of quiet github troubled]
    by (simp add: isDigit_def)
  then have frac: "handleRequestError quiet github (RequestError ?frac) troubled
         = (Throws (ProviderRequestRateLimitError (RequestError ?frac) (Some ''t0k3n'')
                      (Some (Finite 1700000000))), troubled)"
    by (simp add: tok vf toNumber_exact)
  have "handleRequestError quiet github (RequestError ?abc) troubled
         = (Throws (ProviderRequestRateLimitError (RequestError ?abc) (token github)
                      (Some (toNumber ([] = ''-'') (digitsValue ''123'')))), troubled)"
    using reset_leading_integer [OF st(2) msg(2) ha, of quiet github troubled]
    by (simp add: isDigit_def)
  then have abc: "handleRequestError quiet github (RequestError ?abc) troubled
         = (Throws (ProviderRequestRateLimitError (RequestError ?abc) (Some ''t0k3n'')
                      (Some (Finite 123))), troubled)"
    by (simp add: tok va toNumber_exact)
  from frac abc show ?thesis by blast
qed

section \<open>The executor\<close>

lemma fetch_trace:
  assumes "\<not> cancellationRequested options"
  shows "\<exists>evs. trace (snd (fetch e provider u init options transport s))
           = trace s @ (if hasCancellation options then [OnCancellationRequested] else [])
               @ (case effectiveTimeout options of None \<Rightarrow> [] | Some t \<Rightarrow> [SetTimeout t])
               @ [Fetch (buildRequest e u init options)]
               @ (case effectiveTimeout options of None \<Rightarrow> [] | Some t \<Rightarrow> [ClearTimeout])
               @ evs
           \<and> timersArmed evs = []"
proof -
  define s4 where "s4 =
    (let s1 = (if hasCancellation options then emit OnCancellationRequested s else s);
         s2 = (case effectiveTimeout options of None \<Rightarrow> s1 | Some t \<Rightarrow> emit (SetTimeout t) s1);
         s3 = emit (Fetch (buildRequest e u init options)) s2
     in case effectiveTimeout options of None \<Rightarrow> s3 | Some t \<Rightarrow> emit ClearTimeout s3)"
  have t4: "trace s4 = trace s @ (if hasCancellation options then [OnCancellationRequested] else [])
               @ (case effectiveTimeout options of None \<Rightarrow> [] | Some t \<Rightarrow> [SetTimeout t])
               @ [Fetch (buildRequest e u init options)]
               @ (case effectiveTimeout options of None \<Rightarrow> [] | Some t \<Rightarrow> [ClearTimeout])"
    by (simp add: s4_def Let_def emit_def split: option.split)
  show ?thesis
  proof (cases "transport (buildRequest e u init options)")
    case (Inr result)
    then have "snd (fetch e provider u init options transport s) = resetRequestExceptionCount s4"
      using assms by (simp add: fetch_def s4_def Let_def)
    then have "trace (snd (fetch e provider u init options transport s))
                 = trace s4 @ [ProviderResetRequestExceptionCount]"
      by (simp add: resetRequestExceptionCount_def emit_def)
    with t4 show ?thesis by simp
  next
    case (Inl ex)
    then have "snd (fetch e provider u init options transport s)
                 = snd (handleRequestError e provider ex s4)"
      using assms by (simp add: fetch_def s4_def Let_def split: prod.split completion.split)
    moreover obtain evs where
      "trace (snd (handleRequestError e provider ex s4)) = trace s4 @ evs" "timersArmed evs = []"
      using handleRequestError_trace by blast
    ultimately show ?thesis using t4 by simp
  qed
qed

text \<open>
  C3. When the cancellation token passed in the options is already signalled, \<open>fetch\<close>
  fails with a fresh \<open>CancellationError\<close> and leaves the state as it found it: no
  request reaches the transport, no timer is armed, no listener is registered and no
  method of the provider is called. The transport plays no part in the result.
\<close>

theorem cancelled_on_entry:
  assumes "options = Some opts" and "cancellation opts = Some tok"
    and "isCancellationRequested tok"
  shows "fetch e provider u init options transport s = (Inl (Exn (CancellationError None)), s)"
  using assms by (simp add: fetch_def cancellationRequested_def)

theorem cancelled_on_entry_witness:
  "isCancellationRequested \<lparr>isCancellationRequested = True\<rparr>
   \<and> fetch quiet github ''https://api.github.com/user'' None
        (Some \<lparr>cancellation = Some \<lparr>isCancellationRequested = True\<rparr>, timeout = Some 10,
               userAgent = None\<rparr>)
        (\<lambda>req. Inr ''body'') troubled
       = (Inl (Exn (CancellationError None)), troubled)"
proof -
  have h: "isCancellationRequested \<lparr>isCancellationRequested = True\<rparr>"
    by simp
  have c: "cancellation \<lparr>cancellation = Some \<lparr>isCancellationRequested = True\<rparr>,
                         timeout = Some 10, userAgent = None\<rparr>
             = Some \<lparr>isCancellationRequested = True\<rparr>"
    by simp
  from h cancelled_on_entry [OF refl c h] show ?thesis by blast
qed

text \<open>
  C4, as the code has it. With a cancellation token in the options the effective timeout
  is the \<open>timeout\<close> option as given, absent when none was given; with neither token nor
  timeout it is 60000 ms. A call whose token is not already signalled on entry arms exactly
  one timer, with the effective timeout as its delay, when there is an effective timeout,
  and none otherwise.
\<close>

theorem timeout_policy:
  "(\<forall>opts. options = Some opts \<longrightarrow> cancellation opts \<noteq> None
       \<longrightarrow> effectiveTimeout options = timeout opts)
   \<and> (options = None \<longrightarrow> effectiveTimeout options = Some 60000)
   \<and> (\<forall>opts. options = Some opts \<longrightarrow> cancellation opts = None \<longrightarrow> timeout opts = None
       \<longrightarrow> effectiveTimeout options = Some 60000)
   \<and> (\<not> cancellationRequested options
       \<longrightarrow> timersArmed (eventsSince s (snd (fetch e provider u init options transport s)))
           = (case effectiveTimeout options of None \<Rightarrow> [] | Some t \<Rightarrow> [t]))"
proof -
  have timers: "timersArmed (eventsSince s (snd (fetch e provider u init options transport s)))
           = (case effectiveTimeout options of None \<Rightarrow> [] | Some t \<Rightarrow> [t])"
    if "\<not> cancellationRequested options"
  proof -
    from fetch_trace [OF that, of e provider u init transport s] obtain evs where
      tr: "trace (snd (fetch e provider u init options transport s))
           = trace s @ ((if hasCancellation options then [OnCancellationRequested] else [])
               @ (case effectiveTimeout options of None \<Rightarrow> [] | Some t \<Rightarrow> [SetTimeout t])
               @ [Fetch (buildRequest e u init options)]
               @ (case effectiveTimeout options of None \<Rightarrow> [] | Some t \<Rightarrow> [ClearTimeout])
               @ evs)"
      and ev: "timersArmed evs = []"
      by blast
    show ?thesis
      unfolding eventsSince_append [OF tr]
      using ev by (simp add: timersArmed_append split: option.split)
  qed
  show ?thesis
    using timers by (auto simp: effectiveTimeout_def)
qed

theorem timeout_policy_witness:
  "effectiveTimeout (Some \<lparr>cancellation = Some \<lparr>isCancellationRequested = False\<rparr>,
                          timeout = None, userAgent = None\<rparr>) = None
   \<and> timersArmed (eventsSince troubled (snd (fetch quiet github ''https://api.github.com/user'' None
        (Some \<lparr>cancellation = Some \<lparr>isCancellationRequested = False\<rparr>,
               timeout = None, userAgent = None\<rparr>)
        (\<lambda>req. Inr ''body'') troubled))) = []
   \<and> effectiveTimeout (Some \<lparr>cancellation = Some \<lparr>isCancellationRequested = False\<rparr>,
                          timeout = Some 10, userAgent = None\<rparr>) = Some 10
   \<and> effectiveTimeout None = Some 60000
   \<and> timersArmed (eventsSince troubled (snd (fetch quiet github ''https://api.github.com/user'' None
        None (\<lambda>req. Inr ''body'') troubled))) = [60000]
   \<and> effectiveTimeout (Some \<lparr>cancellation = None, timeout = None, userAgent = None\<rparr>)
       = Some 60000"
proof -
  let ?tok = "Some \<lparr>cancellation = Some \<lparr>isCancellationRequested = False\<rparr>,
                    timeout = None, userAgent = None\<rparr>"
  let ?tok10 = "Some \<lparr>cancellation = Some \<lparr>isCancellationRequested = False\<rparr>,
                      timeout = Some 10, userAgent = None\<rparr>"
  let ?plain = "Some \<lparr>cancellation = None, timeout = None, userAgent = None\<rparr>"
  have n1: "\<not> cancellationRequested ?tok" and n2: "\<not> cancellationRequested None"
    by (simp_all add: cancellationRequested_def)
  from timeout_policy [of ?tok troubled quiet github "''https://api.github.com/user''" None
      "\<lambda>req. Inr ''body''"] n1
  have a: "effectiveTimeout ?tok = None
    \<and> timersArmed (eventsSince troubled (snd (fetch quiet github ''https://api.github.com/user''
         None ?tok (\<lambda>req. Inr ''body'') troubled))) = []"
    by simp
  from timeout_policy [of ?tok10 troubled quiet github "''https://api.github.com/user''" None
      "\<lambda>req. Inr ''body''"]
  have b: "effectiveTimeout ?tok10 = Some 10"
    by simp
  from timeout_policy [of None troubled quiet github "''https://api.github.com/user''" None
      "\<lambda>req. Inr ''body''"] n2
  have c: "effectiveTimeout None = Some 60000
    \<and> timersArmed (eventsSince troubled (snd (fetch quiet github ''https://api.github.com/user''
         None None (\<lambda>req. Inr ''body'') troubled))) = [60000]"
    by simp
  from timeout_policy [of ?plain troubled quiet github "''https://api.github.com/user''" None
      "\<lambda>req. Inr ''body''"]
  have d: "effectiveTimeout ?plain = Some 60000"
    by simp
  from a b c d show ?thesis by blast
qed

text \<open>
  The claim C4 as it is worded, for every call, fails: with a token that is already
  signalled and a timeout of 10 ms the effective timeout is present, but the call is
  refused on entry, before the timer would be armed, and no timer is armed.
\<close>

theorem timer_armed_on_every_call_counterexample:
  "effectiveTimeout cancelled10 = Some 10
   \<and> timersArmed (eventsSince troubled
         (snd (fetch quiet github ''https://api.github.com/user'' None cancelled10 respond
                 troubled))) = []
   \<and> \<not> (timersArmed (eventsSince troubled
              (snd (fetch quiet github ''https://api.github.com/user'' None cancelled10 respond
                      troubled))) \<noteq> []
          \<longleftrightarrow> effectiveTimeout cancelled10 \<noteq> None)"
  by (simp add: cancelled10_def effectiveTimeout_def fetch_def cancellationRequested_def
      eventsSince_def)

text \<open>
  C7. When the call passes the entry check and the transport settles the request with a
  response, \<open>fetch\<close> returns that very response, calls the provider's
  \<open>resetRequestExceptionCount\<close> exactly once, and the provider's count of tracked
  exceptions is zero afterwards, whatever it was before.
\<close>

theorem success_resets_exception_count:
  assumes "\<not> cancellationRequested options"
    and "transport (buildRequest e u init options) = Inr result"
  shows "fst (fetch e provider u init options transport s) = Inr result
         \<and> requestExceptionCount (snd (fetch e provider u init options transport s)) = 0
         \<and> count_list (eventsSince s (snd (fetch e provider u init options transport s)))
             ProviderResetRequestExceptionCount = 1"
  using assms
  by (simp add: fetch_def Let_def eventsSince_def emit_def resetRequestExceptionCount_def
      split: option.split)

theorem success_resets_exception_count_witness:
  "requestExceptionCount troubled = 3
   \<and> fst (fetch quiet github ''https://api.github.com/user'' None None
            (\<lambda>req. Inr ''body'') troubled) = Inr ''body''
   \<and> requestExceptionCount (snd (fetch quiet github ''https://api.github.com/user'' None None
            (\<lambda>req. Inr ''body'') troubled)) = 0"
proof -
  have n: "\<not> cancellationRequested None"
    by (simp add: cancellationRequested_def)
  have t: "(\<lambda>req. Inr ''body'' :: exn + string)
             (buildRequest quiet ''https://api.github.com/user'' None None) = Inr ''body''"
    by simp
  have "requestExceptionCount troubled = 3"
    by (simp add: troubled_def)
  with success_resets_exception_count [OF n t, where provider = github and s = troubled]
  show ?thesis
    by blast
qed

section \<open>Server errors\<close>

text \<open>
  C1, as the code has it. A request error with status 500 that carries a response is
  logged, then \<open>trackRequestException\<close> is called once on the subscription service
  of the container, not on the provider: the provider's own method is not called and its
  count stays as it was. The warning that the provider failed to respond is shown, with
  the link to its status page when it has one, and classification returns without
  throwing. \<open>fetch\<close> then throws the original exception to its caller.
\<close>

theorem server_error_absorbed:
  assumes "status r = 500" and "response r \<noteq> None"
  shows "handleRequestError e provider (RequestError r) s
           = (Returns,
              s\<lparr>trace := trace s @
                   [LoggerError (RequestError r), SubscriptionTrackRequestException,
                    ShowIntegrationRequestFailed500WarningMessage (failed500Message provider)]\<rparr>)
         \<and> count_list (eventsSince s (snd (handleRequestError e provider (RequestError r) s)))
             SubscriptionTrackRequestException = 1
         \<and> count_list (eventsSince s (snd (handleRequestError e provider (RequestError r) s)))
             ProviderTrackRequestException = 0
         \<and> requestExceptionCount (snd (handleRequestError e provider (RequestError r) s))
             = requestExceptionCount s
         \<and> (\<not> cancellationRequested options
              \<longrightarrow> transport (buildRequest e u init options) = Inl (RequestError r)
              \<longrightarrow> fst (fetch e provider u init options transport s)
                    = Inl (Exn (RequestError r)))"
proof -
  have "fst (fetch e provider u init options transport s) = Inl (Exn (RequestError r))"
    if "\<not> cancellationRequested options"
      "transport (buildRequest e u init options) = Inl (RequestError r)"
    using that assms by (simp add: fetch_def Let_def)
  then show ?thesis
    using assms by (simp add: eventsSince_def emit_def)
qed

theorem server_error_absorbed_witness:
  "fst (handleRequestError quiet github
          (RequestError (failure 500 ''Internal Server Error'' Map.empty)) troubled) = Returns
   \<and> eventsSince troubled (snd (handleRequestError quiet github
          (RequestError (failure 500 ''Internal Server Error'' Map.empty)) troubled))
       = [LoggerError (RequestError (failure 500 ''Internal Server Error'' Map.empty)),
          SubscriptionTrackRequestException,
          ShowIntegrationRequestFailed500WarningMessage
            ''GitHub failed to respond and might be experiencing issues.Please visit the [GitHub status page](https://www.githubstatus.com) for more information.'']
   \<and> fst (fetch quiet github ''https://api.github.com/user'' None None
            (\<lambda>req. Inl (RequestError (failure 500 ''Internal Server Error'' Map.empty)) :: exn + string)
            troubled)
       = Inl (Exn (RequestError (failure 500 ''Internal Server Error'' Map.empty)))"
proof -
  let ?r = "failure 500 ''Internal Server Error'' Map.empty"
  have h1: "status ?r = 500" and h2: "response ?r \<noteq> None"
    by (simp_all add: failure_def)
  have n: "\<not> cancellationRequested None"
    by (simp add: cancellationRequested_def)
  have m: "failed500Message github
    = ''GitHub failed to respond and might be experiencing issues.Please visit the [GitHub status page](https://www.githubstatus.com) for more information.''"
    by (simp add: failed500Message_def github_def)
  from server_error_absorbed [OF h1 h2, where e = quiet and provider = github and s = troubled
      and options = None and transport = "\<lambda>req. Inl (RequestError ?r)"
      and u = "''https://api.github.com/user''" and init = None] n m
  show ?thesis
    by (simp add: eventsSince_def failure_def emit_def troubled_def)
qed

text \<open>
  The claim C1 as it is worded, that the provider's own \<open>trackRequestException\<close> is
  called once, fails: for GitHub and a 500 with a response, the events of classification
  hold no call of the provider's method, and the provider's count stays at 3.
\<close>

theorem provider_tracked_on_500_counterexample:
  "\<not> (count_list
        (eventsSince troubled (snd (handleRequestError quiet github
           (RequestError (failure 500 ''Internal Server Error'' Map.empty)) troubled)))
        ProviderTrackRequestException = 1
      \<or> requestExceptionCount (snd (handleRequestError quiet github
           (RequestError (failure 500 ''Internal Server Error'' Map.empty)) troubled))
         = Suc (requestExceptionCount troubled))"
  by (simp add: failure_def eventsSince_def emit_def troubled_def)

end
